theory Spec2Isabelle
  imports Complex_Main "HOL-Library.AList" "HOL-Library.Log_Nat"
begin

section \<open>Python values shared by the two scripts\<close>

text \<open>
  Exceptions are values. \<open>AssertionError\<close> carries which of the two assertions of
  \<open>stratified_fixed_sizes\<close> failed (with the numbers its message prints),
  \<open>SystemExit\<close> the numbers of the message of \<open>main\<close>, and \<open>Upstream\<close> stands for
  any exception raised inside pandas or scikit-learn.
\<close>

datatype assert_msg = Sizes_must_be_positive | Sizes_exceed_dataset int nat

datatype py_error =
    AssertionError assert_msg
  | SystemExit int nat
  | IndexError
  | KeyError string
  | ZeroDivisionError
  | Upstream string

definition bindE :: "py_error + 'a \<Rightarrow> ('a \<Rightarrow> py_error + 'b) \<Rightarrow> py_error + 'b" where
  "bindE m f = (case m of Inl e \<Rightarrow> Inl e | Inr x \<Rightarrow> f x)"

text \<open>Indexing a Python list or a one-dimensional array: a negative index counts from the
  end, anything out of range raises IndexError.\<close>

definition getitem :: "'a list \<Rightarrow> int \<Rightarrow> py_error + 'a" where
  "getitem xs i =
     (if 0 \<le> i \<and> i < int (length xs) then Inr (xs ! nat i)
      else if - int (length xs) \<le> i \<and> i < 0 then Inr (xs ! nat (int (length xs) + i))
      else Inl IndexError)"

text \<open>What \<open>json.dumps\<close> is given. A dict is an association list in insertion order;
  \<open>'f\<close> is the type of floats, which the exporter only passes through.\<close>

datatype 'f json =
    JNull
  | JBool bool
  | JInt int
  | JFloat 'f
  | JStr string
  | JList "'f json list"
  | JDict "(string \<times> 'f json) list"

text \<open>\<open>d.update(kvs)\<close>: a key already present keeps its position and takes the new
  value, a new key is appended.\<close>

definition dict_update :: "(string \<times> 'v) list \<Rightarrow> (string \<times> 'v) list \<Rightarrow> (string \<times> 'v) list" where
  "dict_update d kvs = fold (\<lambda>(k, v). AList.update k v) kvs d"

section \<open>train\_tree.py: the tree exporter\<close>

text \<open>The arrays of \<open>tree.tree_\<close> that the exporter reads. \<open>value\<close> is the
  three-dimensional array indexed \<open>[node][output][0]\<close>.\<close>

record 'f sk_tree =
  node_count :: nat
  children_left :: "int list"
  children_right :: "int list"
  feature :: "int list"
  threshold :: "'f list"
  n_node_samples :: "int list"
  impurity :: "'f list"
  value_arr :: "'f list list list"

definition node_dict :: "'f sk_tree \<Rightarrow> string list \<Rightarrow> nat \<Rightarrow> py_error + (string \<times> 'f json) list" where
  "node_dict sk feature_names i =
     bindE (getitem (children_left sk) (int i)) (\<lambda>l.
     bindE (getitem (children_right sk) (int i)) (\<lambda>r.
     let is_leaf = (l = r) in
     bindE (getitem (n_node_samples sk) (int i)) (\<lambda>ns.
     bindE (getitem (impurity sk) (int i)) (\<lambda>imp.
     bindE (bindE (bindE (getitem (value_arr sk) (int i)) (\<lambda>a. getitem a 0)) (\<lambda>b. getitem b 0)) (\<lambda>v.
     let d = [(''id'', JInt (int i)),
              (''isLeaf'', JBool is_leaf),
              (''nSamples'', JInt ns),
              (''impurity'', JFloat imp),
              (''value'', JFloat v)] in
     if \<not> is_leaf then
       bindE (getitem (feature sk) (int i)) (\<lambda>feat_idx.
       bindE (getitem feature_names feat_idx) (\<lambda>fname.
       bindE (getitem (threshold sk) (int i)) (\<lambda>th.
       bindE (getitem (children_left sk) (int i)) (\<lambda>l'.
       bindE (getitem (children_right sk) (int i)) (\<lambda>r'.
       Inr (dict_update d
              [(''feature'', JStr fname),
               (''featureIndex'', JInt feat_idx),
               (''threshold'', JFloat th),
               (''left'', JInt l'),
               (''right'', JInt r')]))))))
     else Inr d)))))"

text \<open>The loop \<open>for i in range(sk.node_count): nodes.append(node_dict(i))\<close>; an
  exception in \<open>node_dict\<close> ends it.\<close>

fun append_nodes :: "(nat \<Rightarrow> py_error + 'a) \<Rightarrow> nat list \<Rightarrow> 'a list \<Rightarrow> py_error + 'a list" where
  "append_nodes f [] nodes = Inr nodes"
| "append_nodes f (i # rest) nodes =
     (case f i of Inl e \<Rightarrow> Inl e | Inr d \<Rightarrow> append_nodes f rest (nodes @ [d]))"

definition export_tree_json :: "'f sk_tree \<Rightarrow> string list \<Rightarrow> py_error + 'f json" where
  "export_tree_json sk feature_names =
     bindE (append_nodes (node_dict sk feature_names) [0..<node_count sk] []) (\<lambda>nodes.
     Inr (JDict [(''root'', JInt 0), (''nodes'', JList (map JDict nodes))]))"

text \<open>What scikit-learn guarantees of a fitted regression tree over \<open>n_features\<close>
  columns: every array has one entry per node, \<open>value[i][0][0]\<close> exists, and a node whose
  two child ids differ splits on a feature of the matrix.\<close>

definition fitted :: "'f sk_tree \<Rightarrow> nat \<Rightarrow> bool" where
  "fitted sk n_features \<longleftrightarrow>
     length (children_left sk) = node_count sk \<and>
     length (children_right sk) = node_count sk \<and>
     length (feature sk) = node_count sk \<and>
     length (threshold sk) = node_count sk \<and>
     length (n_node_samples sk) = node_count sk \<and>
     length (impurity sk) = node_count sk \<and>
     length (value_arr sk) = node_count sk \<and>
     list_all (\<lambda>a. a \<noteq> [] \<and> hd a \<noteq> []) (value_arr sk) \<and>
     list_all (\<lambda>i. children_left sk ! i \<noteq> children_right sk ! i \<longrightarrow>
                   0 \<le> feature sk ! i \<and> feature sk ! i < int n_features)
              [0..<node_count sk]"

text \<open>The tree of the spec's round-trip test: one split on the only feature, two leaves.\<close>

definition tiny_tree :: "rat sk_tree" where
  "tiny_tree = \<lparr>node_count = 3,
      children_left = [1, -1, -1], children_right = [2, -1, -1],
      feature = [0, -2, -2], threshold = [1/2, -2, -2],
      n_node_samples = [10, 4, 6], impurity = [3/2, 0, 1/4],
      value_arr = [[[2]], [[1]], [[5/2]]]\<rparr>"

section \<open>Tables\<close>

text \<open>
  A pandas DataFrame with the default 0-based index: the number of rows and the columns in
  order, each a name with its values. Every frame pandas builds satisfies \<open>wf_frame\<close>:
  the names differ and each column has one value per row. A Series is a named column.
\<close>

record 'f frame =
  nrows :: nat
  cols :: "(string \<times> 'f list) list"

record 'f series =
  sname :: string
  svalues :: "'f list"


definition len :: "'f frame \<Rightarrow> nat" where
  "len df = nrows df"

definition columns :: "'f frame \<Rightarrow> string list" where
  "columns df = map fst (cols df)"

text \<open>\<open>df[name]\<close>\<close>

definition column :: "'f frame \<Rightarrow> string \<Rightarrow> py_error + 'f list" where
  "column df name =
     (case map_of (cols df) name of None \<Rightarrow> Inl (KeyError name) | Some vs \<Rightarrow> Inr vs)"

text \<open>\<open>df[names]\<close> with a list of names: the named columns in the order asked.\<close>

fun select_columns :: "'f frame \<Rightarrow> string list \<Rightarrow> py_error + (string \<times> 'f list) list" where
  "select_columns df [] = Inr []"
| "select_columns df (c # rest) =
     bindE (column df c) (\<lambda>vs. bindE (select_columns df rest) (\<lambda>more. Inr ((c, vs) # more)))"

definition getitem_list :: "'f frame \<Rightarrow> string list \<Rightarrow> py_error + 'f frame" where
  "getitem_list df names = bindE (select_columns df names) (\<lambda>cs. Inr (df\<lparr>cols := cs\<rparr>))"


text \<open>\<open>df.to_numpy()\<close>: the matrix of the rows, its columns in the frame's order.\<close>

definition to_numpy :: "'f frame \<Rightarrow> 'f list list" where
  "to_numpy df = map (\<lambda>i. map (\<lambda>c. snd c ! i) (cols df)) [0..<nrows df]"

definition copy :: "'f frame \<Rightarrow> 'f frame" where
  "copy df = df"

text \<open>\<open>df[name] = values\<close> for a Series on the same index as the frame: an existing
  column is replaced in place, a new one is appended.\<close>

definition set_column :: "'f frame \<Rightarrow> string \<Rightarrow> 'f list \<Rightarrow> 'f frame" where
  "set_column df name vs = df\<lparr>cols := AList.update name vs (cols df)\<rparr>"

text \<open>\<open>df.iloc[idx]\<close> for an array of row positions; a position past the end raises
  IndexError. The result keeps the rows in the order of \<open>idx\<close>.\<close>

definition iloc :: "'f frame \<Rightarrow> nat list \<Rightarrow> py_error + 'f frame" where
  "iloc df idx =
     (if list_all (\<lambda>i. i < nrows df) idx
      then Inr \<lparr>nrows = length idx, cols = map (\<lambda>c. (fst c, map (\<lambda>i. snd c ! i) idx)) (cols df)\<rparr>
      else Inl IndexError)"

text \<open>\<open>reset_index(drop=True)\<close> replaces the index by 0, 1, ...; the frames here carry
  no other index.\<close>

definition reset_index :: "'f frame \<Rightarrow> 'f frame" where
  "reset_index df = df"

section \<open>Python floats\<close>

text \<open>
  A finite float is the rational it denotes. \<open>fl\<close> rounds a rational to the nearest
  binary64 number, ties to even, for values in the normal range (no overflow, no
  subnormals): \<open>binade x\<close> is the exponent \<open>e\<close> with \<open>2^e \<le> x < 2^(e+1)\<close> and the
  significand keeps 53 bits. \<open>truediv\<close> is Python's \<open>a / b\<close> on integers, which is
  correctly rounded.
\<close>

definition pow2 :: "int \<Rightarrow> rat" where
  "pow2 e = (if 0 \<le> e then 2 ^ nat e else 1 / 2 ^ nat (- e))"

definition round_half_even :: "rat \<Rightarrow> int" where
  "round_half_even x =
     (let f = \<lfloor>x\<rfloor>; d = x - of_int f
      in if d < 1 / 2 then f else if 1 / 2 < d then f + 1 else if even f then f else f + 1)"

definition binade :: "rat \<Rightarrow> int" where
  "binade x = (case quotient_of x of (p, q) \<Rightarrow>
      let e = bitlen p - bitlen q in if pow2 e \<le> x then e else e - 1)"

definition fl :: "rat \<Rightarrow> rat" where
  "fl x = (if x = 0 then 0
           else let a = \<bar>x\<bar>; e = binade a; m = round_half_even (a * pow2 (52 - e))
                in sgn x * of_int m * pow2 (e - 52))"

definition truediv :: "int \<Rightarrow> int \<Rightarrow> py_error + rat" where
  "truediv a b = (if b = 0 then Inl ZeroDivisionError else Inr (fl (of_int a / of_int b)))"

section \<open>prepare\_data.py: the stratified fixed-size split\<close>

text \<open>
  The calls into pandas and scikit-learn are the fields of a record, so that every theorem
  holds for whatever these libraries compute. An operation that draws random numbers takes
  the state \<open>'g\<close> of NumPy's global generator and the \<open>random_state\<close> argument
  (\<open>None\<close> when the caller gives none) and returns the new global state. A library
  exception is a string.
  \<^item> \<open>qcut y q duplicates\<close> is \<open>pd.qcut(y, q=q, duplicates=...)\<close>, a categorical: the
    interval categories and one code per value (\<open>-1\<close> for a missing value).
  \<^item> \<open>split g seed train test n y\<close> is
    \<open>next(StratifiedShuffleSplit(n_splits=1, train_size=train, test_size=test,
    random_state=seed).split(np.arange(n).reshape(-1, 1), y))\<close>: the train and the test
    positions.
  \<^item> \<open>choice g seed m n\<close> is the draw of \<open>DataFrame.sample(n=n, random_state=seed)\<close> on
    a frame of \<open>m\<close> rows: the positions of the sampled rows.
  \<^item> \<open>to_csv df\<close> is the text \<open>df.to_csv(path, index=False)\<close> writes.
\<close>

datatype duplicates = Raise | Drop

record 'f categorical =
  categories :: "('f \<times> 'f) list"
  codes :: "int list"

record ('f, 'g) library =
  qcut :: "'f list \<Rightarrow> int \<Rightarrow> duplicates \<Rightarrow> string + 'f categorical"
  split :: "'g \<Rightarrow> int option \<Rightarrow> rat \<Rightarrow> rat \<Rightarrow> nat \<Rightarrow> int list \<Rightarrow> (string + nat list \<times> nat list) \<times> 'g"
  choice :: "'g \<Rightarrow> int option \<Rightarrow> nat \<Rightarrow> int \<Rightarrow> (string + nat list) \<times> 'g"
  to_csv :: "'f frame \<Rightarrow> string"

definition upstream :: "string + 'a \<Rightarrow> py_error + 'a" where
  "upstream r = (case r of Inl msg \<Rightarrow> Inl (Upstream msg) | Inr x \<Rightarrow> Inr x)"

text \<open>Sequencing of computations that may raise and that pass the generator state on.\<close>

definition bindS ::
  "('g \<Rightarrow> (py_error + 'a) \<times> 'g) \<Rightarrow> ('a \<Rightarrow> 'g \<Rightarrow> (py_error + 'b) \<times> 'g) \<Rightarrow> 'g \<Rightarrow> (py_error + 'b) \<times> 'g" where
  "bindS m f g = (case m g of (Inl e, g') \<Rightarrow> (Inl e, g') | (Inr x, g') \<Rightarrow> f x g')"

definition pure :: "py_error + 'a \<Rightarrow> 'g \<Rightarrow> (py_error + 'a) \<times> 'g" where
  "pure r g = (r, g)"

text \<open>\<open>astype("category")\<close> of a categorical is that categorical; \<open>cat.codes\<close> are its
  codes.\<close>

definition astype_category :: "'f categorical \<Rightarrow> 'f categorical" where
  "astype_category binned = binned"

definition make_stratify_bins :: "('f, 'g) library \<Rightarrow> 'f series \<Rightarrow> int \<Rightarrow> py_error + int list" where
  "make_stratify_bins L y n_bins =
     bindE (upstream (qcut L (svalues y) n_bins Drop)) (\<lambda>binned.
     Inr (codes (astype_category binned)))"

text \<open>\<open>df.sample(n=n, random_state=seed)\<close>: the rows at the drawn positions. In
  \<open>stratified_fixed_sizes\<close> the two \<open>assert\<close> statements are checked (Python run
  without \<open>-O\<close>), and each step is in the order of the source: the size of the table,
  the assertions, the bins, the two proportions, the split, the table with the target
  column, the two subsets, and the trimming of the train and then of the test subset.\<close>

definition sample ::
  "('f, 'g) library \<Rightarrow> 'f frame \<Rightarrow> int \<Rightarrow> int option \<Rightarrow> 'g \<Rightarrow> (py_error + 'f frame) \<times> 'g" where
  "sample L df n seed g =
     apfst (\<lambda>r. bindE (upstream r) (iloc df)) (choice L g seed (len df) n)"

definition stratified_fixed_sizes ::
  "('f, 'g) library \<Rightarrow> 'f frame \<Rightarrow> 'f series \<Rightarrow> int \<Rightarrow> int \<Rightarrow> int \<Rightarrow> int \<Rightarrow>
     'g \<Rightarrow> (py_error + 'f frame \<times> 'f frame) \<times> 'g" where
  "stratified_fixed_sizes L X y train_size test_size random_state n_bins =
     (let n_total = len X in
      if \<not> (train_size > 0 \<and> test_size > 0) then
        pure (Inl (AssertionError Sizes_must_be_positive))
      else if \<not> (train_size + test_size \<le> int n_total) then
        pure (Inl (AssertionError (Sizes_exceed_dataset (train_size + test_size) n_total)))
      else
        bindS (pure (make_stratify_bins L y n_bins)) (\<lambda>stratify_bins.
        bindS (pure (truediv train_size (int n_total))) (\<lambda>train_prop.
        bindS (pure (truediv test_size (int n_total))) (\<lambda>test_prop.
        bindS (\<lambda>g. apfst upstream
                     (split L g (Some random_state) train_prop test_prop n_total stratify_bins))
          (\<lambda>(train_idx, test_idx).
        let X_y = set_column (copy X) (sname y) (svalues y) in
        bindS (pure (map_sum id reset_index (iloc X_y train_idx))) (\<lambda>train_df.
        bindS (pure (map_sum id reset_index (iloc X_y test_idx))) (\<lambda>test_df.
        bindS (if int (len train_df) > train_size
               then (\<lambda>g. apfst (map_sum id reset_index)
                            (sample L train_df train_size (Some random_state) g))
               else pure (Inr train_df)) (\<lambda>train_df.
        bindS (if int (len test_df) > test_size
               then (\<lambda>g. apfst (map_sum id reset_index)
                            (sample L test_df test_size (Some (random_state + 1)) g))
               else pure (Inr test_df)) (\<lambda>test_df.
        pure (Inr (train_df, test_df)))))))))))"

text \<open>\<open>main\<close> of prepare\_data.py, given the parsed arguments and the loaded dataset. Its
  result is what it writes: the two files, each as its name under \<open>--out-dir\<close> and its
  text.\<close>

record prepare_args =
  pd_train_size :: int
  pd_test_size :: int
  pd_random_state :: int
  pd_bins :: int
  pd_out_dir :: string

definition prepare_main ::
  "('f, 'g) library \<Rightarrow> prepare_args \<Rightarrow> 'f frame \<Rightarrow> 'g \<Rightarrow>
     (py_error + ((string \<times> string) \<times> string) list) \<times> 'g" where
  "prepare_main L args df =
     (let feature_cols = filter (\<lambda>c. c \<noteq> ''MedHouseVal'') (columns df) in
      bindS (pure (column df ''MedHouseVal'')) (\<lambda>target_values.
      let target = \<lparr>sname = ''MedHouseVal'', svalues = target_values\<rparr> in
      bindS (pure (getitem_list df feature_cols)) (\<lambda>features.
      if pd_train_size args + pd_test_size args > int (len df) then
        pure (Inl (SystemExit (pd_train_size args + pd_test_size args) (len df)))
      else
        bindS (stratified_fixed_sizes L features target (pd_train_size args) (pd_test_size args)
                 (pd_random_state args) (pd_bins args)) (\<lambda>(train_df, test_df).
        pure (Inr [((pd_out_dir args, ''california_housing_train.csv''), to_csv L train_df),
                   ((pd_out_dir args, ''california_housing_test.csv''), to_csv L test_df)])))))"

text \<open>
  What the theorems below ask of the libraries, each a documented property of the call:
  \<^item> \<open>draws_exactly\<close>: \<open>DataFrame.sample(n=n)\<close> returns \<open>n\<close> rows;
  \<^item> \<open>split_disjoint\<close>: the train and the test positions of a split have no position in
    common;
  \<^item> \<open>seeded\<close>: a call given an integer \<open>random_state\<close> draws from a generator of
    its own, so its result does not depend on the global generator state.
\<close>

definition draws_exactly :: "('f, 'g) library \<Rightarrow> bool" where
  "draws_exactly L \<longleftrightarrow>
     (\<forall>g seed m n locs g'. choice L g seed m n = (Inr locs, g') \<longrightarrow> int (length locs) = n)"

definition split_disjoint :: "('f, 'g) library \<Rightarrow> bool" where
  "split_disjoint L \<longleftrightarrow>
     (\<forall>g seed train test n y train_idx test_idx g'.
        split L g seed train test n y = (Inr (train_idx, test_idx), g') \<longrightarrow>
        set train_idx \<inter> set test_idx = {})"

definition seeded :: "('f, 'g) library \<Rightarrow> bool" where
  "seeded L \<longleftrightarrow>
     (\<forall>g g' s train test n y.
        fst (split L g (Some s) train test n y) = fst (split L g' (Some s) train test n y)) \<and>
     (\<forall>g g' s m n. fst (choice L g (Some s) m n) = fst (choice L g' (Some s) m n))"

text \<open>A computation whose result, though not its final state, is the same from every
  generator state.\<close>

definition ignores_state :: "('g \<Rightarrow> 'r \<times> 'g) \<Rightarrow> bool" where
  "ignores_state m \<longleftrightarrow> (\<forall>g g'. fst (m g) = fst (m g'))"

text \<open>The constraint violation of \<open>stratified_fixed_sizes\<close>: one of its two assertions
  failed.\<close>

definition constraint_violation :: "py_error + 'a \<Rightarrow> bool" where
  "constraint_violation r = (case r of Inl (AssertionError msg) \<Rightarrow> True | _ \<Rightarrow> False)"

section \<open>train\_tree.py: training and the metadata\<close>








section \<open>A reference library\<close>

text \<open>
  One instance of each library record, to run the model on concrete inputs.

  Modelled from the spec: the stratified split of scikit-learn, which
  \<open>stratified_fixed_sizes\<close> calls and the repository does not contain. The spec says:
  "Perform one stratified random split whose proportions are train_size/total and
  test_size/total", and "proportional rounding may overshoot the requested absolute counts
  by a few rows". \<open>sk_sizes\<close> is the rounding, as scikit-learn's
  \<open>_validate_shuffle_split\<close> does it for float sizes: both proportions lie strictly
  between 0 and 1, their sum is at most 1, \<open>n_test = ceil(test_size * n_samples)\<close>,
  \<open>n_train = floor(train_size * n_samples)\<close>, and \<open>n_train + n_test\<close> must not exceed
  \<open>n_samples\<close>. The products and the sum are float operations. \<open>ref_split\<close> returns
  that many positions; which rows it takes is a rotation of \<open>0, 1, ...\<close> by the seed, or
  by the global state when no seed is given, and not a stratified shuffle. \<open>ref_choice\<close>
  draws the same way, and refuses a sample larger than the population as pandas does. The
  \<open>to_csv\<close> of the reference library writes the column names only.
\<close>

definition sk_sizes :: "rat \<Rightarrow> rat \<Rightarrow> nat \<Rightarrow> string + nat \<times> nat" where
  "sk_sizes train_size test_size n_samples =
     (if test_size \<le> 0 \<or> 1 \<le> test_size then Inl ''test_size must be in (0, 1)''
      else if train_size \<le> 0 \<or> 1 \<le> train_size then Inl ''train_size must be in (0, 1)''
      else if 1 < fl (train_size + test_size) then
        Inl ''the sum of test_size and train_size should be in (0, 1)''
      else
        let n_test = \<lceil>fl (test_size * of_nat n_samples)\<rceil>;
            n_train = \<lfloor>fl (train_size * of_nat n_samples)\<rfloor> in
        if int n_samples < n_train + n_test then
          Inl ''the sum of train_size and test_size should be smaller than the number of samples''
        else if n_train = 0 then Inl ''the resulting train set will be empty''
        else Inr (nat n_train, nat n_test))"

definition draw_order :: "nat \<Rightarrow> int option \<Rightarrow> nat \<Rightarrow> nat list" where
  "draw_order g seed n = rotate (case seed of None \<Rightarrow> g | Some s \<Rightarrow> nat \<bar>s\<bar>) [0..<n]"

definition advance :: "nat \<Rightarrow> int option \<Rightarrow> nat" where
  "advance g seed = (case seed of None \<Rightarrow> Suc g | Some s \<Rightarrow> g)"

definition ref_split ::
  "nat \<Rightarrow> int option \<Rightarrow> rat \<Rightarrow> rat \<Rightarrow> nat \<Rightarrow> int list \<Rightarrow> (string + nat list \<times> nat list) \<times> nat" where
  "ref_split g seed train_size test_size n y =
     (case sk_sizes train_size test_size n of
        Inl msg \<Rightarrow> (Inl msg, g)
      | Inr (n_train, n_test) \<Rightarrow>
          (Inr (take n_train (draw_order g seed n), take n_test (drop n_train (draw_order g seed n))),
           advance g seed))"

definition ref_choice :: "nat \<Rightarrow> int option \<Rightarrow> nat \<Rightarrow> int \<Rightarrow> (string + nat list) \<times> nat" where
  "ref_choice g seed m n =
     (if n < 0 \<or> int m < n then (Inl ''cannot take a larger sample than population'', g)
      else (Inr (take (nat n) (draw_order g seed m)), advance g seed))"

text \<open>
  Modelled from the spec: \<open>pandas.qcut\<close>, which \<open>make_stratify_bins\<close> calls and the
  repository does not contain. The spec says: "Partition the target values into
  approximately equal-frequency bins using quantile edges; if duplicate edges collapse some
  bins, the effective bin count silently shrinks", and then "Convert bin membership to an
  integer code per record". For a series of exact numbers without missing values and
  \<open>q\<close> bins: the edges are the quantiles of the values at \<open>0, 1/q, ..., 1\<close>, each
  interpolated linearly between its neighbours in the sorted series; when an edge occurs
  more than once, the call fails or, with \<open>duplicates="drop"\<close>, keeps one of each (two
  edges are never reduced); the bins are the intervals between consecutive edges, each
  with its right end, the first also with its left end; the code of a value is the number
  of its bin, and \<open>-1\<close> when it is in no bin. The categories are given by their two
  edges.
\<close>

definition exact_quantile :: "rat list \<Rightarrow> rat \<Rightarrow> rat" where
  "exact_quantile s p =
     (let h = p * of_nat (length s - 1); lo = nat \<lfloor>h\<rfloor>; hi = min (lo + 1) (length s - 1)
      in s ! lo + (s ! hi - s ! lo) * (h - of_nat lo))"

definition unique :: "'a list \<Rightarrow> 'a list" where
  "unique xs = rev (remdups (rev xs))"

definition bin_code :: "rat list \<Rightarrow> rat \<Rightarrow> int" where
  "bin_code bins x =
     (let i = (if x = hd bins then 1 else length (filter (\<lambda>b. b < x) bins))
      in if i = length bins \<or> i = 0 then - 1 else int i - 1)"

definition exact_qcut :: "rat list \<Rightarrow> int \<Rightarrow> duplicates \<Rightarrow> string + rat categorical" where
  "exact_qcut y q dup =
     (if y = [] \<or> q < 1 then Inl ''no values or no bins''
      else
        let s = sort y;
            edges = map (\<lambda>k. exact_quantile s (of_nat k / of_int q)) [0..<nat q + 1];
            collide = (length (unique edges) < length edges \<and> length edges \<noteq> 2)
        in if collide \<and> dup = Raise then Inl ''Bin edges must be unique''
           else
             let bins = (if collide then unique edges else edges)
             in Inr \<lparr>categories = zip bins (tl bins), codes = map (bin_code bins) y\<rparr>)"

definition ref_library :: "(rat, nat) library" where
  "ref_library = \<lparr>qcut = exact_qcut, split = ref_split, choice = ref_choice,
                  to_csv = (\<lambda>df. concat (map fst (cols df)))\<rparr>"




text \<open>Tables for the runs: \<open>numbered n\<close> has one feature column \<open>MedInc\<close> with the
  values \<open>0, ..., n - 1\<close>, and \<open>targets n\<close> is the target column with the same values.\<close>

definition numbered :: "nat \<Rightarrow> rat frame" where
  "numbered n = \<lparr>nrows = n, cols = [(''MedInc'', map of_nat [0..<n])]\<rparr>"

definition targets :: "nat \<Rightarrow> rat series" where
  "targets n = \<lparr>sname = ''MedHouseVal'', svalues = map of_nat [0..<n]\<rparr>"

text \<open>What the reference library returns for 25 records, 10 for training and 7 for
  testing, with seed 42.\<close>

definition run_train :: "rat frame" where
  "run_train = \<lparr>nrows = 10,
      cols = [(''MedInc'', [17, 18, 19, 20, 21, 22, 23, 24, 0, 1]),
              (''MedHouseVal'', [17, 18, 19, 20, 21, 22, 23, 24, 0, 1])]\<rparr>"

definition run_test :: "rat frame" where
  "run_test = \<lparr>nrows = 7,
      cols = [(''MedInc'', [5, 6, 7, 8, 9, 2, 3]),
              (''MedHouseVal'', [5, 6, 7, 8, 9, 2, 3])]\<rparr>"

text \<open>Two target series: one whose quantile edges for four bins coincide in part, and one
  of equal values.\<close>

definition collapsing_series :: "rat series" where
  "collapsing_series = \<lparr>sname = ''MedHouseVal'', svalues = [1, 1, 1, 1, 2, 3]\<rparr>"





section \<open>Basic facts about the Python operations\<close>

lemma bindE_Inr [simp]: "bindE (Inr x) f = f x"
  by (simp add: bindE_def)

lemma bindE_Inl [simp]: "bindE (Inl e) f = Inl e"
  by (simp add: bindE_def)

lemma bindE_eq_Inr: "bindE m f = Inr y \<longleftrightarrow> (\<exists>x. m = Inr x \<and> f x = Inr y)"
  by (cases m) simp_all

lemma getitem_nat: "i < length xs \<Longrightarrow> getitem xs (int i) = Inr (xs ! i)"
  by (simp add: getitem_def)

lemma getitem_zero: "xs \<noteq> [] \<Longrightarrow> getitem xs 0 = Inr (hd xs)"
  by (cases xs) (simp_all add: getitem_def)

lemma getitem_in_range: "0 \<le> k \<Longrightarrow> k < int (length xs) \<Longrightarrow> getitem xs k = Inr (xs ! nat k)"
  by (simp add: getitem_def)

section \<open>The exporter on a fitted tree\<close>

text \<open>On a fitted tree no lookup of \<open>node_dict\<close> fails, and the record it builds is the
  five common keys followed, for a node whose child ids differ, by the five split keys.\<close>

lemma node_dict_fitted:
  assumes "fitted sk (length feature_names)" and "i < node_count sk"
  shows "node_dict sk feature_names i =
           Inr ([(''id'', JInt (int i)),
                 (''isLeaf'', JBool (children_left sk ! i = children_right sk ! i)),
                 (''nSamples'', JInt (n_node_samples sk ! i)),
                 (''impurity'', JFloat (impurity sk ! i)),
                 (''value'', JFloat (hd (hd (value_arr sk ! i))))] @
                (if children_left sk ! i = children_right sk ! i then []
                 else [(''feature'', JStr (feature_names ! nat (feature sk ! i))),
                       (''featureIndex'', JInt (feature sk ! i)),
                       (''threshold'', JFloat (threshold sk ! i)),
                       (''left'', JInt (children_left sk ! i)),
                       (''right'', JInt (children_right sk ! i))]))"
proof -
  from assms have len:
    "i < length (children_left sk)" "i < length (children_right sk)"
    "i < length (feature sk)" "i < length (threshold sk)"
    "i < length (n_node_samples sk)" "i < length (impurity sk)"
    "i < length (value_arr sk)"
    by (simp_all add: fitted_def)
  from assms have "value_arr sk ! i \<noteq> [] \<and> hd (value_arr sk ! i) \<noteq> []"
    by (simp add: fitted_def list_all_length)
  then have val:
    "bindE (bindE (getitem (value_arr sk) (int i)) (\<lambda>a. getitem a 0)) (\<lambda>b. getitem b 0)
       = Inr (hd (hd (value_arr sk ! i)))"
    using len by (simp add: getitem_nat getitem_zero)
  from assms have feat: "children_left sk ! i \<noteq> children_right sk ! i \<Longrightarrow>
      0 \<le> feature sk ! i \<and> feature sk ! i < int (length feature_names)"
    by (simp add: fitted_def list_all_iff)
  show ?thesis
  proof (cases "children_left sk ! i = children_right sk ! i")
    case True
    then show ?thesis
      using len val by (simp add: node_dict_def getitem_nat)
  next
    case False
    from feat [OF False]
    have "getitem feature_names (feature sk ! i) = Inr (feature_names ! nat (feature sk ! i))"
      by (simp add: getitem_in_range)
    then show ?thesis
      using False len val by (simp add: node_dict_def getitem_nat dict_update_def)
  qed
qed

lemma append_nodes_all:
  "\<forall>i\<in>set xs. f i = Inr (g i) \<Longrightarrow> append_nodes f xs acc = Inr (acc @ map g xs)"
  by (induction xs arbitrary: acc) simp_all

lemma export_fitted:
  assumes "fitted sk (length feature_names)"
  shows "export_tree_json sk feature_names =
           Inr (JDict [(''root'', JInt 0),
                       (''nodes'', JList (map JDict
                          (map (\<lambda>i. projr (node_dict sk feature_names i)) [0..<node_count sk])))])"
proof -
  have "\<forall>i\<in>set [0..<node_count sk].
          node_dict sk feature_names i = Inr (projr (node_dict sk feature_names i))"
    using node_dict_fitted [OF assms] by simp
  then show ?thesis
    by (simp add: export_tree_json_def append_nodes_all)
qed

lemma fitted_tiny_tree: "fitted tiny_tree (length [''MedInc''])"
  by (simp add: fitted_def tiny_tree_def upt_conv_Cons)

text \<open>
  C3. For a fitted tree the export succeeds, and its node \<open>i\<close> has \<open>isLeaf\<close> true exactly
  when the left and right child ids of \<open>i\<close> are equal in the source arrays. A leaf record has
  none of the keys feature, featureIndex, threshold, left, right; an interior record has all
  five, with left and right the child ids of the arrays.
\<close>

theorem export_leaf_iff_children_equal:
  assumes "fitted sk (length feature_names)"
  shows "\<exists>nodes.
           export_tree_json sk feature_names =
             Inr (JDict [(''root'', JInt 0), (''nodes'', JList (map JDict nodes))]) \<and>
           length nodes = node_count sk \<and>
           (\<forall>i<node_count sk.
              map_of (nodes ! i) ''isLeaf'' =
                Some (JBool (children_left sk ! i = children_right sk ! i)) \<and>
              (children_left sk ! i = children_right sk ! i \<longrightarrow>
                 fst ` set (nodes ! i) \<inter>
                   {''feature'', ''featureIndex'', ''threshold'', ''left'', ''right''} = {}) \<and>
              (children_left sk ! i \<noteq> children_right sk ! i \<longrightarrow>
                 {''feature'', ''featureIndex'', ''threshold'', ''left'', ''right''}
                   \<subseteq> fst ` set (nodes ! i) \<and>
                 map_of (nodes ! i) ''left'' = Some (JInt (children_left sk ! i)) \<and>
                 map_of (nodes ! i) ''right'' = Some (JInt (children_right sk ! i))))"
proof -
  let ?nodes = "map (\<lambda>i. projr (node_dict sk feature_names i)) [0..<node_count sk]"
  have "\<forall>i<node_count sk.
          map_of (?nodes ! i) ''isLeaf'' =
            Some (JBool (children_left sk ! i = children_right sk ! i)) \<and>
          (children_left sk ! i = children_right sk ! i \<longrightarrow>
             fst ` set (?nodes ! i) \<inter>
               {''feature'', ''featureIndex'', ''threshold'', ''left'', ''right''} = {}) \<and>
          (children_left sk ! i \<noteq> children_right sk ! i \<longrightarrow>
             {''feature'', ''featureIndex'', ''threshold'', ''left'', ''right''}
               \<subseteq> fst ` set (?nodes ! i) \<and>
             map_of (?nodes ! i) ''left'' = Some (JInt (children_left sk ! i)) \<and>
             map_of (?nodes ! i) ''right'' = Some (JInt (children_right sk ! i)))"
    by (simp add: node_dict_fitted [OF assms])
  then show ?thesis
    using export_fitted [OF assms] by (intro exI [of _ ?nodes]) simp
qed

theorem export_leaf_iff_children_equal_witness:
  "fitted tiny_tree (length [''MedInc'']) \<and>
   (\<exists>nodes.
      export_tree_json tiny_tree [''MedInc''] =
        Inr (JDict [(''root'', JInt 0), (''nodes'', JList (map JDict nodes))]) \<and>
      length nodes = 3 \<and>
      map_of (nodes ! 0) ''isLeaf'' = Some (JBool False) \<and>
      map_of (nodes ! 0) ''left'' = Some (JInt 1) \<and>
      map_of (nodes ! 0) ''right'' = Some (JInt 2) \<and>
      map_of (nodes ! 1) ''isLeaf'' = Some (JBool True) \<and>
      fst ` set (nodes ! 1) \<inter>
        {''feature'', ''featureIndex'', ''threshold'', ''left'', ''right''} = {} \<and>
      map_of (nodes ! 2) ''isLeaf'' = Some (JBool True) \<and>
      fst ` set (nodes ! 2) \<inter>
        {''feature'', ''featureIndex'', ''threshold'', ''left'', ''right''} = {})"
proof -
  obtain nodes where
    out: "export_tree_json tiny_tree [''MedInc''] =
            Inr (JDict [(''root'', JInt 0), (''nodes'', JList (map JDict nodes))])"
    and len: "length nodes = node_count tiny_tree"
    and all: "\<forall>i<node_count tiny_tree.
              map_of (nodes ! i) ''isLeaf'' =
                Some (JBool (children_left tiny_tree ! i = children_right tiny_tree ! i)) \<and>
              (children_left tiny_tree ! i = children_right tiny_tree ! i \<longrightarrow>
                 fst ` set (nodes ! i) \<inter>
                   {''feature'', ''featureIndex'', ''threshold'', ''left'', ''right''} = {}) \<and>
              (children_left tiny_tree ! i \<noteq> children_right tiny_tree ! i \<longrightarrow>
                 {''feature'', ''featureIndex'', ''threshold'', ''left'', ''right''}
                   \<subseteq> fst ` set (nodes ! i) \<and>
                 map_of (nodes ! i) ''left'' = Some (JInt (children_left tiny_tree ! i)) \<and>
                 map_of (nodes ! i) ''right'' = Some (JInt (children_right tiny_tree ! i)))"
    using export_leaf_iff_children_equal [OF fitted_tiny_tree] by blast
  have n: "node_count tiny_tree = 3"
    by (simp add: tiny_tree_def)
  have arrays: "children_left tiny_tree = [1, -1, -1]" "children_right tiny_tree = [2, -1, -1]"
    by (simp_all add: tiny_tree_def)
  have "(0::nat) < 3" and "(1::nat) < 3" and "(2::nat) < 3"
    by simp_all
  from all [unfolded n, rule_format, OF this(1)] all [unfolded n, rule_format, OF this(2)]
    all [unfolded n, rule_format, OF this(3)]
  have "map_of (nodes ! 0) ''isLeaf'' = Some (JBool False)"
    and "map_of (nodes ! 0) ''left'' = Some (JInt 1)"
    and "map_of (nodes ! 0) ''right'' = Some (JInt 2)"
    and "map_of (nodes ! 1) ''isLeaf'' = Some (JBool True)"
    and "fst ` set (nodes ! 1) \<inter>
           {''feature'', ''featureIndex'', ''threshold'', ''left'', ''right''} = {}"
    and "map_of (nodes ! 2) ''isLeaf'' = Some (JBool True)"
    and "fst ` set (nodes ! 2) \<inter>
           {''feature'', ''featureIndex'', ''threshold'', ''left'', ''right''} = {}"
    unfolding arrays by simp_all
  then show ?thesis
    using fitted_tiny_tree out len n by (intro conjI exI [of _ nodes]) simp_all
qed

text \<open>The three-node tree exported in full.\<close>

lemma export_tiny_tree:
  "export_tree_json tiny_tree [''MedInc''] =
     Inr (JDict [(''root'', JInt 0), (''nodes'', JList
       [JDict [(''id'', JInt 0), (''isLeaf'', JBool False), (''nSamples'', JInt 10),
               (''impurity'', JFloat (3/2)), (''value'', JFloat 2),
               (''feature'', JStr ''MedInc''), (''featureIndex'', JInt 0),
               (''threshold'', JFloat (1/2)), (''left'', JInt 1), (''right'', JInt 2)],
        JDict [(''id'', JInt 1), (''isLeaf'', JBool True), (''nSamples'', JInt 4),
               (''impurity'', JFloat 0), (''value'', JFloat 1)],
        JDict [(''id'', JInt 2), (''isLeaf'', JBool True), (''nSamples'', JInt 6),
               (''impurity'', JFloat (1/4)), (''value'', JFloat (5/2))]])])"
  by (simp add: export_tree_json_def node_dict_def getitem_def dict_update_def tiny_tree_def
        upt_conv_Cons)

text \<open>
  C7. For a fitted tree with \<open>node_count\<close> nodes the export is a dictionary whose
  \<open>root\<close> is 0 and whose \<open>nodes\<close> list has exactly \<open>node_count\<close> entries, the entry at
  position \<open>i\<close> having \<open>id\<close> equal to \<open>i\<close>.
\<close>

theorem export_nodes_ids_in_order:
  assumes "fitted sk (length feature_names)"
  shows "\<exists>nodes.
           export_tree_json sk feature_names =
             Inr (JDict [(''root'', JInt 0), (''nodes'', JList (map JDict nodes))]) \<and>
           length nodes = node_count sk \<and>
           (\<forall>i<node_count sk. map_of (nodes ! i) ''id'' = Some (JInt (int i)))"
proof -
  let ?nodes = "map (\<lambda>i. projr (node_dict sk feature_names i)) [0..<node_count sk]"
  have "\<forall>i<node_count sk. map_of (?nodes ! i) ''id'' = Some (JInt (int i))"
    by (simp add: node_dict_fitted [OF assms])
  then show ?thesis
    using export_fitted [OF assms] by (intro exI [of _ ?nodes]) simp
qed

theorem export_nodes_ids_in_order_witness:
  "fitted tiny_tree (length [''MedInc'']) \<and>
   (\<exists>nodes.
      export_tree_json tiny_tree [''MedInc''] =
        Inr (JDict [(''root'', JInt 0), (''nodes'', JList (map JDict nodes))]) \<and>
      length nodes = 3 \<and>
      map_of (nodes ! 0) ''id'' = Some (JInt 0) \<and>
      map_of (nodes ! 1) ''id'' = Some (JInt 1) \<and>
      map_of (nodes ! 2) ''id'' = Some (JInt 2))"
proof -
  obtain nodes where
    out: "export_tree_json tiny_tree [''MedInc''] =
            Inr (JDict [(''root'', JInt 0), (''nodes'', JList (map JDict nodes))])"
    and len: "length nodes = node_count tiny_tree"
    and ids: "\<forall>i<node_count tiny_tree. map_of (nodes ! i) ''id'' = Some (JInt (int i))"
    using export_nodes_ids_in_order [OF fitted_tiny_tree] by blast
  have n: "node_count tiny_tree = 3"
    by (simp add: tiny_tree_def)
  have "(0::nat) < 3" and "(1::nat) < 3" and "(2::nat) < 3"
    by simp_all
  from ids [unfolded n, rule_format, OF this(1)] ids [unfolded n, rule_format, OF this(2)]
    ids [unfolded n, rule_format, OF this(3)]
  have "map_of (nodes ! 0) ''id'' = Some (JInt 0)"
    and "map_of (nodes ! 1) ''id'' = Some (JInt 1)"
    and "map_of (nodes ! 2) ''id'' = Some (JInt 2)"
    by simp_all
  then show ?thesis
    using fitted_tiny_tree out len n by (intro conjI exI [of _ nodes]) simp_all
qed

section \<open>The split: how a run that returns came about\<close>

lemma bindS_Inr_iff:
  "bindS m f g = (Inr y, g'') \<longleftrightarrow> (\<exists>x g'. m g = (Inr x, g') \<and> f x g' = (Inr y, g''))"
  by (auto simp: bindS_def split: prod.splits sum.splits)

lemma pure_Inr_iff: "pure r g = (Inr y, g') \<longleftrightarrow> r = Inr y \<and> g' = g"
  by (auto simp: pure_def)

lemma upstream_Inr_iff: "upstream r = Inr x \<longleftrightarrow> r = Inr x"
  by (cases r) (simp_all add: upstream_def)

lemma apfst_eq_iff: "apfst f p = (a, b) \<longleftrightarrow> (\<exists>x. p = (x, b) \<and> f x = a)"
  by (cases p) auto

lemma map_sum_reset_index: "map_sum id reset_index r = r"
  by (cases r) (simp_all add: reset_index_def)

lemma if_pure_Inr_iff:
  "(if c then m else pure (Inr d)) g = (Inr z, g'') \<longleftrightarrow>
     (if c then m g = (Inr z, g'') else z = d \<and> g'' = g)"
  by (auto simp: pure_def)

lemma apfst_reset_index: "apfst (map_sum id reset_index) p = p"
  by (cases p) (simp add: map_sum_reset_index)

text \<open>A run returns exactly when the sizes are valid and every step returns: the bins,
  the two divisions, the split, the two selections of rows and, for a subset larger than
  requested, its sampling.\<close>

lemma sfs_returns_iff:
  "stratified_fixed_sizes L X y a b s k g = (Inr (tr, te), g') \<longleftrightarrow>
   0 < a \<and> 0 < b \<and> a + b \<le> int (len X) \<and>
    (\<exists>bins tp sp tri tei g1 tr0 te0 g2.
    make_stratify_bins L y k = Inr bins \<and>
    truediv a (int (len X)) = Inr tp \<and>
    truediv b (int (len X)) = Inr sp \<and>
    split L g (Some s) tp sp (len X) bins = (Inr (tri, tei), g1) \<and>
    iloc (set_column (copy X) (sname y) (svalues y)) tri = Inr tr0 \<and>
    iloc (set_column (copy X) (sname y) (svalues y)) tei = Inr te0 \<and>
    (if a < int (len tr0) then sample L tr0 a (Some s) g1 = (Inr tr, g2) else tr = tr0 \<and> g2 = g1) \<and>
    (if b < int (len te0) then sample L te0 b (Some (s + 1)) g2 = (Inr te, g') else te = te0 \<and> g' = g2))"
proof (cases "0 < a \<and> 0 < b \<and> a + b \<le> int (len X)")
  case True
  then show ?thesis
    by (simp add: stratified_fixed_sizes_def Let_def bindS_Inr_iff pure_Inr_iff
          map_sum_reset_index apfst_reset_index apfst_eq_iff upstream_Inr_iff if_pure_Inr_iff
          cong: if_cong)
next
  case False
  then show ?thesis
    by (auto simp: stratified_fixed_sizes_def Let_def pure_def)
qed

lemma sfs_returns:
  assumes "stratified_fixed_sizes L X y a b s k g = (Inr (tr, te), g')"
  shows "0 < a \<and> 0 < b \<and> a + b \<le> int (len X) \<and>
    (\<exists>bins tp sp tri tei g1 tr0 te0 g2.
    make_stratify_bins L y k = Inr bins \<and>
    truediv a (int (len X)) = Inr tp \<and>
    truediv b (int (len X)) = Inr sp \<and>
    split L g (Some s) tp sp (len X) bins = (Inr (tri, tei), g1) \<and>
    iloc (set_column (copy X) (sname y) (svalues y)) tri = Inr tr0 \<and>
    iloc (set_column (copy X) (sname y) (svalues y)) tei = Inr te0 \<and>
    (if a < int (len tr0) then sample L tr0 a (Some s) g1 = (Inr tr, g2) else tr = tr0 \<and> g2 = g1) \<and>
    (if b < int (len te0) then sample L te0 b (Some (s + 1)) g2 = (Inr te, g') else te = te0 \<and> g' = g2))"
  using assms unfolding sfs_returns_iff .

lemma iloc_Inr_iff:
  "iloc df idx = Inr d \<longleftrightarrow>
     (\<forall>i\<in>set idx. i < nrows df) \<and>
     d = \<lparr>nrows = length idx, cols = map (\<lambda>c. (fst c, map (\<lambda>i. snd c ! i) idx)) (cols df)\<rparr>"
  by (auto simp: iloc_def list_all_iff)

lemma len_iloc: "iloc df idx = Inr d \<Longrightarrow> len d = length idx"
  by (simp add: iloc_Inr_iff len_def)

lemma iloc_iloc:
  assumes "iloc df idx = Inr d" and "iloc d locs = Inr d'"
  shows "iloc df (map (\<lambda>j. idx ! j) locs) = Inr d'"
proof -
  from assms have locs: "\<forall>j\<in>set locs. j < length idx"
    by (simp add: iloc_Inr_iff)
  from assms(1) have idx: "\<forall>i\<in>set idx. i < nrows df"
    by (simp add: iloc_Inr_iff)
  have "\<forall>c\<in>set (cols df). map (\<lambda>i. map (\<lambda>i. snd c ! i) idx ! i) locs = map (\<lambda>j. snd c ! (idx ! j)) locs"
    using locs by simp
  then show ?thesis
    using assms locs idx by (simp add: iloc_Inr_iff comp_def)
qed

lemma sample_Inr:
  assumes "sample L df n seed g = (Inr d, g')"
  shows "\<exists>locs. choice L g seed (len df) n = (Inr locs, g') \<and> iloc df locs = Inr d"
  using assms by (auto simp: sample_def apfst_eq_iff bindE_eq_Inr upstream_Inr_iff)

lemma sizes_after_trim:
  assumes "draws_exactly L"
    and "iloc df idx = Inr d0"
    and "if n < int (len d0) then sample L d0 n seed g = (Inr d, g') else d = d0 \<and> g' = g"
    and "0 < n"
  shows "len d = min (length idx) (nat n)"
proof (cases "n < int (len d0)")
  case True
  with assms(3) obtain locs where "choice L g seed (len d0) n = (Inr locs, g')" and "iloc d0 locs = Inr d"
    using sample_Inr by meson
  with assms(1) have "int (len d) = n"
    by (force simp: draws_exactly_def len_iloc)
  with True assms(2) show ?thesis
    by (simp add: len_iloc)
next
  case False
  with assms show ?thesis
    by (auto simp: len_iloc)
qed

lemma rows_after_trim:
  assumes "iloc df idx = Inr d0"
    and "if n < int (len d0) then sample L d0 n seed g = (Inr d, g') else d = d0 \<and> g' = g"
  shows "\<exists>rows. set rows \<subseteq> set idx \<and> iloc df rows = Inr d"
proof (cases "n < int (len d0)")
  case True
  with assms(2) obtain locs where "iloc d0 locs = Inr d"
    using sample_Inr by meson
  then have "iloc df (map (\<lambda>j. idx ! j) locs) = Inr d" and "\<forall>j\<in>set locs. j < length idx"
    using assms(1) by (simp_all add: iloc_iloc) (simp add: iloc_Inr_iff)
  then show ?thesis
    by (intro exI [of _ "map (\<lambda>j. idx ! j) locs"]) auto
next
  case False
  with assms show ?thesis
    by auto
qed


lemma to_numpy_iloc:
  assumes "iloc df rows = Inr d"
  shows "to_numpy d = map (\<lambda>i. to_numpy df ! i) rows"
proof -
  from assms have rows: "\<forall>i\<in>set rows. i < nrows df"
    and d: "d = \<lparr>nrows = length rows, cols = map (\<lambda>c. (fst c, map (\<lambda>i. snd c ! i) rows)) (cols df)\<rparr>"
    by (simp_all add: iloc_Inr_iff)
  have "to_numpy d ! k = map (\<lambda>i. to_numpy df ! i) rows ! k" if "k < length rows" for k
  proof -
    from that rows have "rows ! k < nrows df"
      by simp
    with that show ?thesis
      by (simp add: d to_numpy_def comp_def)
  qed
  moreover have "length (to_numpy d) = length rows"
    by (simp add: d to_numpy_def)
  ultimately show ?thesis
    by (intro nth_equalityI) simp_all
qed

lemma disjoint_rows:
  assumes "iloc df train_rows = Inr train_df" and "iloc df test_rows = Inr test_df"
    and "set train_rows \<inter> set test_rows = {}" and "distinct (to_numpy df)"
  shows "set (to_numpy train_df) \<inter> set (to_numpy test_df) = {}"
proof -
  have len: "length (to_numpy df) = nrows df"
    by (simp add: to_numpy_def)
  from assms(1,2) have in_range: "\<forall>i\<in>set train_rows. i < nrows df" "\<forall>i\<in>set test_rows. i < nrows df"
    by (simp_all add: iloc_Inr_iff)
  have "to_numpy df ! i \<noteq> to_numpy df ! j" if "i \<in> set train_rows" and "j \<in> set test_rows" for i j
  proof -
    from that assms(3) have "i \<noteq> j"
      by blast
    moreover from that in_range have "i < length (to_numpy df)" and "j < length (to_numpy df)"
      by (simp_all add: len)
    ultimately show ?thesis
      using assms(4) by (simp add: nth_eq_iff_index_eq)
  qed
  then show ?thesis
    unfolding to_numpy_iloc [OF assms(1)] to_numpy_iloc [OF assms(2)] by auto
qed



section \<open>The split: independence of the global generator state\<close>


lemma ignores_pure: "ignores_state (pure r)"
  by (simp add: ignores_state_def pure_def)

lemma ignores_bindS:
  assumes "ignores_state m" and "\<And>x. ignores_state (f x)"
  shows "ignores_state (bindS m f)"
  unfolding ignores_state_def
proof (intro allI)
  fix g g'
  obtain r g1 where mg: "m g = (r, g1)"
    by (cases "m g")
  obtain r' g1' where mg': "m g' = (r', g1')"
    by (cases "m g'")
  from assms(1) mg mg' have eq: "r' = r"
    unfolding ignores_state_def by (metis fst_conv)
  show "fst (bindS m f g) = fst (bindS m f g')"
  proof (cases r)
    case (Inl e)
    with mg mg' eq show ?thesis
      by (simp add: bindS_def)
  next
    case (Inr x)
    from assms(2) have "fst (f x g1) = fst (f x g1')"
      unfolding ignores_state_def by blast
    with Inr mg mg' eq show ?thesis
      by (simp add: bindS_def)
  qed
qed

lemma ignores_apfst: "ignores_state m \<Longrightarrow> ignores_state (\<lambda>g. apfst h (m g))"
  unfolding ignores_state_def
proof (intro allI)
  fix g g'
  assume "\<forall>g g'. fst (m g) = fst (m g')"
  then have "fst (m g) = fst (m g')"
    by blast
  then show "fst (apfst h (m g)) = fst (apfst h (m g'))"
    by simp
qed

lemma ignores_split:
  "seeded L \<Longrightarrow> ignores_state (\<lambda>g. split L g (Some s) train test n y)"
  by (simp add: seeded_def ignores_state_def)

lemma ignores_sample: "seeded L \<Longrightarrow> ignores_state (sample L df n (Some s))"
  unfolding sample_def by (rule ignores_apfst) (simp add: seeded_def ignores_state_def)

lemma ignores_if:
  "ignores_state m1 \<Longrightarrow> ignores_state m2 \<Longrightarrow> ignores_state (if c then m1 else m2)"
  by simp

lemma ignores_case_prod:
  "(\<And>a b. ignores_state (f a b)) \<Longrightarrow> ignores_state (case p of (a, b) \<Rightarrow> f a b)"
  by (cases p) simp

lemma ignores_sfs:
  assumes "seeded L"
  shows "ignores_state (stratified_fixed_sizes L X y train_size test_size random_state n_bins)"
  unfolding stratified_fixed_sizes_def Let_def
  by (intro ignores_bindS ignores_pure ignores_apfst ignores_split [OF assms]
        ignores_sample [OF assms] ignores_if ignores_case_prod)

lemma ignores_prepare_main:
  assumes "seeded L"
  shows "ignores_state (prepare_main L args df)"
  unfolding prepare_main_def Let_def
  by (intro ignores_bindS ignores_pure ignores_sfs [OF assms] ignores_if ignores_case_prod)


section \<open>The split: the constraint check\<close>

lemma cv_simps [simp]:
  "constraint_violation (Inl (AssertionError m))"
  "\<not> constraint_violation (Inl IndexError)"
  "\<not> constraint_violation (Inl ZeroDivisionError)"
  "\<not> constraint_violation (Inl (Upstream msg))"
  "\<not> constraint_violation (Inl (KeyError k))"
  "\<not> constraint_violation (Inl (SystemExit i n))"
  "\<not> constraint_violation (Inr x)"
  by (simp_all add: constraint_violation_def)


lemma cv_upstream [simp]: "\<not> constraint_violation (upstream r)"
  by (cases r) (simp_all add: upstream_def)

lemma cv_iloc [simp]: "\<not> constraint_violation (iloc df idx)"
  by (simp add: iloc_def)

lemma cv_truediv [simp]: "\<not> constraint_violation (truediv a b)"
  by (simp add: truediv_def)

lemma cv_make_stratify_bins [simp]: "\<not> constraint_violation (make_stratify_bins L y k)"
  by (cases "qcut L (svalues y) k Drop") (simp_all add: make_stratify_bins_def upstream_def)


lemma cv_map_sum [simp]: "constraint_violation (map_sum id h r) = constraint_violation r"
  by (cases r) (simp_all add: constraint_violation_def)








section \<open>The bins of the quantile cut\<close>

lemma set_unique [simp]: "set (unique xs) = set xs"
  by (simp add: unique_def)




lemma unique_Nil_iff [simp]: "unique xs = [] \<longleftrightarrow> xs = []"
  by (simp add: unique_def)









section \<open>The dataset preparer exits early\<close>

text \<open>\<open>main\<close> of prepare\_data.py exits with its own message, before it calls
  \<open>stratified_fixed_sizes\<close>, when the two sizes together exceed the dataset.\<close>

lemma select_columns_present:
  "set names \<subseteq> set (columns df) \<Longrightarrow> \<exists>cs. select_columns df names = Inr cs"
proof (induction names)
  case Nil
  then show ?case by simp
next
  case (Cons c rest)
  then obtain more where more: "select_columns df rest = Inr more"
    by auto
  from Cons.prems have "c \<in> fst ` set (cols df)"
    by (simp add: columns_def)
  then obtain vs where "map_of (cols df) c = Some vs"
    by (metis domD dom_map_of_conv_image_fst)
  with more show ?case
    by (simp add: column_def)
qed

lemma prepare_main_exits:
  assumes "column df ''MedHouseVal'' = Inr target_values"
    and "int (len df) < pd_train_size args + pd_test_size args"
  shows "prepare_main L args df g =
           (Inl (SystemExit (pd_train_size args + pd_test_size args) (len df)), g)"
proof -
  obtain cs where "select_columns df (filter (\<lambda>c. c \<noteq> ''MedHouseVal'') (columns df)) = Inr cs"
    using select_columns_present [of "filter (\<lambda>c. c \<noteq> ''MedHouseVal'') (columns df)" df] by auto
  with assms show ?thesis
    by (simp add: prepare_main_def Let_def bindS_def pure_def getitem_list_def)
qed

section \<open>The reference library honours the contracts\<close>

lemma draws_exactly_ref: "draws_exactly ref_library"
  by (auto simp: draws_exactly_def ref_library_def ref_choice_def draw_order_def split: if_splits)

lemma distinct_draw_order: "distinct (draw_order g seed n)"
  by (simp add: draw_order_def)

lemma split_disjoint_ref: "split_disjoint ref_library"
proof -
  have "set (take a xs) \<inter> set (take b (drop a xs)) = {}"
    if "distinct xs" for a b and xs :: "nat list"
  proof -
    have "set (take a xs) \<inter> set (drop a xs) = {}"
      using that by (simp add: set_take_disj_set_drop_if_distinct)
    moreover have "set (take b (drop a xs)) \<subseteq> set (drop a xs)"
      by (rule set_take_subset)
    ultimately show ?thesis
      by blast
  qed
  then show ?thesis
    by (auto simp: split_disjoint_def ref_library_def ref_split_def distinct_draw_order
          split: sum.splits prod.splits)
qed

lemma seeded_ref: "seeded ref_library"
  by (simp add: seeded_def ref_library_def ref_split_def ref_choice_def draw_order_def
        split: sum.splits prod.splits)

text \<open>Three runs. With 25 records, 10 for training and 7 for testing, the split gives 8
  test positions (\<open>7 / 25 * 25\<close> is \<open>7.000000000000001\<close> as a float, and its ceiling
  is 8) and the test subset is sampled down to 7.\<close>

lemma run_25_10_7:
  "stratified_fixed_sizes ref_library (numbered 25) (targets 25) 10 7 42 10 (0::nat) =
     (Inr (run_train, run_test), 0)"
  by code_simp

text \<open>With 22 records and 15 for training, \<open>15 / 22 * 22\<close> is \<open>14.999999999999998\<close>
  as a float and its floor is 14.\<close>

lemma run_22_15_5:
  "stratified_fixed_sizes ref_library (numbered 22) (targets 22) 15 5 42 2 (0::nat) =
     (Inr (\<lparr>nrows = 14,
            cols = [(''MedInc'', [20, 21, 0, 1, 2, 3, 4, 5, 6, 7, 8, 9, 10, 11]),
                    (''MedHouseVal'', [20, 21, 0, 1, 2, 3, 4, 5, 6, 7, 8, 9, 10, 11])]\<rparr>,
           \<lparr>nrows = 5,
            cols = [(''MedInc'', [12, 13, 14, 15, 16]),
                    (''MedHouseVal'', [12, 13, 14, 15, 16])]\<rparr>),
      0)"
  by code_simp


text \<open>\<open>fl\<close> on familiar values: \<open>0.1\<close> and \<open>1 / 3\<close> as Python prints them with
  \<open>as_integer_ratio\<close>, and numbers that are floats already.\<close>

lemma fl_examples:
  "fl (1 / 10) = 3602879701896397 / 36028797018963968"
  "fl (1 / 3) = 6004799503160661 / 18014398509481984"
  "fl 25 = 25"
  "fl (3 / 4) = 3 / 4"
  by code_simp+

lemma float_round_trips:
  "fl (fl (15 / 22) * 22) = 8444249301319679 / 562949953421312"
  "fl (fl (7 / 25) * 25) = 7881299347898369 / 1125899906842624"
  "\<lfloor>fl (fl (329 / 20640) * 20640)\<rfloor> = 328"
  by code_simp+

lemma distinct_rows_25:
  "distinct (to_numpy (set_column (numbered 25) (sname (targets 25)) (svalues (targets 25))))"
  by code_simp



lemma collapsing_series_raises:
  "qcut ref_library (svalues collapsing_series) 4 Raise = Inl ''Bin edges must be unique''"
  by code_simp



lemma len_numbered [simp]: "len (numbered n) = n"
  by (simp add: len_def numbered_def)

section \<open>The split: claims\<close>

text \<open>
  C9. When \<open>stratified_fixed_sizes\<close> returns, the train subset has at most
  \<open>train_size\<close> rows and the test subset at most \<open>test_size\<close> rows. More exactly, each
  subset has the smaller of the number of positions the split gave for it and the requested
  size: a subset the split made too large is sampled down to the requested size, and one
  the split made too small is returned as it is, never padded.
\<close>

theorem split_sizes_never_exceed_request:
  assumes "draws_exactly L"
    and "stratified_fixed_sizes L X y train_size test_size random_state n_bins g = (Inr (train_df, test_df), g')"
  shows "int (len train_df) \<le> train_size \<and> int (len test_df) \<le> test_size \<and>
     (\<exists>stratify_bins train_prop test_prop train_idx test_idx g1.
        make_stratify_bins L y n_bins = Inr stratify_bins \<and>
        truediv train_size (int (len X)) = Inr train_prop \<and>
        truediv test_size (int (len X)) = Inr test_prop \<and>
        split L g (Some random_state) train_prop test_prop (len X) stratify_bins =
          (Inr (train_idx, test_idx), g1) \<and>
        len train_df = min (length train_idx) (nat train_size) \<and>
        len test_df = min (length test_idx) (nat test_size))"
proof -
  from sfs_returns [OF assms(2)] obtain bins tp sp tri tei g1 tr0 te0 g2 where
    pos: "0 < train_size" "0 < test_size"
    and calls: "make_stratify_bins L y n_bins = Inr bins"
      "truediv train_size (int (len X)) = Inr tp"
      "truediv test_size (int (len X)) = Inr sp"
      "split L g (Some random_state) tp sp (len X) bins = (Inr (tri, tei), g1)"
    and tr0: "iloc (set_column (copy X) (sname y) (svalues y)) tri = Inr tr0"
    and te0: "iloc (set_column (copy X) (sname y) (svalues y)) tei = Inr te0"
    and tr: "if train_size < int (len tr0)
             then sample L tr0 train_size (Some random_state) g1 = (Inr train_df, g2)
             else train_df = tr0 \<and> g2 = g1"
    and te: "if test_size < int (len te0)
             then sample L te0 test_size (Some (random_state + 1)) g2 = (Inr test_df, g')
             else test_df = te0 \<and> g' = g2"
    by blast
  have 1: "len train_df = min (length tri) (nat train_size)"
    using sizes_after_trim [OF assms(1) tr0 tr pos(1)] .
  have 2: "len test_df = min (length tei) (nat test_size)"
    using sizes_after_trim [OF assms(1) te0 te pos(2)] .
  from 1 2 pos have "int (len train_df) \<le> train_size" and "int (len test_df) \<le> test_size"
    by simp_all
  with calls 1 2 show ?thesis
    by blast
qed

theorem split_sizes_never_exceed_request_witness:
  "draws_exactly ref_library \<and>
   stratified_fixed_sizes ref_library (numbered 25) (targets 25) 10 7 42 10 (0::nat) =
     (Inr (run_train, run_test), 0) \<and>
   int (len run_train) \<le> 10 \<and>
   int (len run_test) \<le> 7 \<and>
   (\<exists>stratify_bins train_prop test_prop train_idx test_idx g1.
      make_stratify_bins ref_library (targets 25) 10 = Inr stratify_bins \<and>
      truediv 10 (int (len (numbered 25))) = Inr train_prop \<and>
      truediv 7 (int (len (numbered 25))) = Inr test_prop \<and>
      split ref_library 0 (Some 42) train_prop test_prop (len (numbered 25)) stratify_bins =
        (Inr (train_idx, test_idx), g1) \<and>
      len run_train = min (length train_idx) (nat 10) \<and>
      len run_test = min (length test_idx) (nat 7))"
  using draws_exactly_ref run_25_10_7
    split_sizes_never_exceed_request [OF draws_exactly_ref run_25_10_7]
  by (intro conjI) blast+

text \<open>
  C4. When \<open>stratified_fixed_sizes\<close> returns, the train subset and the test subset are
  the rows of the input table (the features with the target column) at two lists of row
  positions that have no position in common. So when the records of the table differ from
  one another, no record of the train subset is a record of the test subset.
\<close>

theorem train_test_rows_disjoint:
  assumes "split_disjoint L"
    and "stratified_fixed_sizes L X y train_size test_size random_state n_bins g = (Inr (train_df, test_df), g')"
  shows "(\<exists>train_rows test_rows.
            iloc (set_column X (sname y) (svalues y)) train_rows = Inr train_df \<and>
            iloc (set_column X (sname y) (svalues y)) test_rows = Inr test_df \<and>
            set train_rows \<inter> set test_rows = {}) \<and>
         (distinct (to_numpy (set_column X (sname y) (svalues y))) \<longrightarrow>
            set (to_numpy train_df) \<inter> set (to_numpy test_df) = {})"
proof -
  from sfs_returns [OF assms(2)] obtain bins tp sp tri tei g1 tr0 te0 g2 where
    split: "split L g (Some random_state) tp sp (len X) bins = (Inr (tri, tei), g1)"
    and tr0: "iloc (set_column (copy X) (sname y) (svalues y)) tri = Inr tr0"
    and te0: "iloc (set_column (copy X) (sname y) (svalues y)) tei = Inr te0"
    and tr: "if train_size < int (len tr0)
             then sample L tr0 train_size (Some random_state) g1 = (Inr train_df, g2)
             else train_df = tr0 \<and> g2 = g1"
    and te: "if test_size < int (len te0)
             then sample L te0 test_size (Some (random_state + 1)) g2 = (Inr test_df, g')
             else test_df = te0 \<and> g' = g2"
    by blast
  from rows_after_trim [OF tr0 tr] obtain train_rows where
    a: "set train_rows \<subseteq> set tri" "iloc (set_column (copy X) (sname y) (svalues y)) train_rows = Inr train_df"
    by blast
  from rows_after_trim [OF te0 te] obtain test_rows where
    b: "set test_rows \<subseteq> set tei" "iloc (set_column (copy X) (sname y) (svalues y)) test_rows = Inr test_df"
    by blast
  from assms(1) split have "set tri \<inter> set tei = {}"
    unfolding split_disjoint_def by blast
  with a b have rows: "iloc (set_column X (sname y) (svalues y)) train_rows = Inr train_df"
    "iloc (set_column X (sname y) (svalues y)) test_rows = Inr test_df"
    "set train_rows \<inter> set test_rows = {}"
    unfolding copy_def by blast+
  from disjoint_rows [OF rows]
  have "distinct (to_numpy (set_column X (sname y) (svalues y))) \<longrightarrow>
          set (to_numpy train_df) \<inter> set (to_numpy test_df) = {}"
    by blast
  with rows show ?thesis
    by blast
qed

theorem train_test_rows_disjoint_witness:
  "split_disjoint ref_library \<and>
   stratified_fixed_sizes ref_library (numbered 25) (targets 25) 10 7 42 10 (0::nat) =
     (Inr (run_train, run_test), 0) \<and>
   (\<exists>train_rows test_rows.
      iloc (set_column (numbered 25) (sname (targets 25)) (svalues (targets 25))) train_rows =
        Inr run_train \<and>
      iloc (set_column (numbered 25) (sname (targets 25)) (svalues (targets 25))) test_rows =
        Inr run_test \<and>
      set train_rows \<inter> set test_rows = {}) \<and>
   distinct (to_numpy (set_column (numbered 25) (sname (targets 25)) (svalues (targets 25)))) \<and>
   set (to_numpy run_train) \<inter> set (to_numpy run_test) = {}"
  using split_disjoint_ref run_25_10_7 distinct_rows_25
    train_test_rows_disjoint [OF split_disjoint_ref run_25_10_7]
  by (intro conjI) blast+

text \<open>
  C5. With a library whose seeded calls do not read the global generator, the subsets
  \<open>stratified_fixed_sizes\<close> returns for a seed, a bin count and input data, and the files
  \<open>main\<close> writes from them, are the same from every state of the global generator: two
  runs give the same rows in the same order.
\<close>

theorem split_independent_of_generator_state:
  assumes "seeded L"
  shows "fst (stratified_fixed_sizes L X y train_size test_size random_state n_bins g) =
         fst (stratified_fixed_sizes L X y train_size test_size random_state n_bins g') \<and>
         fst (prepare_main L args df g) = fst (prepare_main L args df g')"
  using ignores_sfs [OF assms] ignores_prepare_main [OF assms]
  by (simp add: ignores_state_def)

lemma run_25_10_7_from_5:
  "fst (stratified_fixed_sizes ref_library (numbered 25) (targets 25) 10 7 42 10 (5::nat)) =
     Inr (run_train, run_test)"
  by code_simp

text \<open>Without a seed the reference library does read the global state.\<close>

lemma unseeded_draw_depends_on_state:
  "fst (choice ref_library 0 None 8 7) \<noteq> fst (choice ref_library 5 None 8 7)"
  by code_simp

theorem split_independent_of_generator_state_witness:
  "seeded ref_library \<and>
   fst (stratified_fixed_sizes ref_library (numbered 25) (targets 25) 10 7 42 10 (0::nat)) =
   fst (stratified_fixed_sizes ref_library (numbered 25) (targets 25) 10 7 42 10 5) \<and>
   fst (prepare_main ref_library
          \<lparr>pd_train_size = 10, pd_test_size = 7, pd_random_state = 42, pd_bins = 10,
           pd_out_dir = ''data''\<rparr>
          (set_column (numbered 25) ''MedHouseVal'' (svalues (targets 25))) 0) =
   fst (prepare_main ref_library
          \<lparr>pd_train_size = 10, pd_test_size = 7, pd_random_state = 42, pd_bins = 10,
           pd_out_dir = ''data''\<rparr>
          (set_column (numbered 25) ''MedHouseVal'' (svalues (targets 25))) 5) \<and>
   fst (stratified_fixed_sizes ref_library (numbered 25) (targets 25) 10 7 42 10 (5::nat)) =
     Inr (run_train, run_test)"
  using seeded_ref run_25_10_7_from_5
    split_independent_of_generator_state [OF seeded_ref, of "numbered 25" "targets 25" 10 7 42 10 0 5
      "\<lparr>pd_train_size = 10, pd_test_size = 7, pd_random_state = 42, pd_bins = 10,
        pd_out_dir = ''data''\<rparr>"
      "set_column (numbered 25) ''MedHouseVal'' (svalues (targets 25))"]
  by (intro conjI) blast+




text \<open>
  C1. The claim is that for valid sizes the train subset has exactly \<open>train_size\<close> rows and
  the test subset exactly \<open>test_size\<close> rows. With 22 records, 15 for training and 5 for
  testing, the sizes are valid and the run returns 14 training rows: the split is asked for
  the proportion \<open>15 / 22\<close>, the floor of \<open>15 / 22 * 22\<close> computed in floats is 14, and a
  subset that is too small is returned as it is.
\<close>

theorem train_subset_one_row_short:
  "(0::int) < 15 \<and> (0::int) < 5 \<and> 15 + 5 \<le> int (len (numbered 22)) \<and>
   (\<exists>train_df test_df g'.
      stratified_fixed_sizes ref_library (numbered 22) (targets 22) 15 5 42 2 (0::nat) =
        (Inr (train_df, test_df), g') \<and>
      len train_df = 14 \<and> len test_df = 5)"
  using run_22_15_5 by (simp add: len_def numbered_def)




section \<open>train\_tree.py: how a run of main that returns came about\<close>










section \<open>The reference learner\<close>







section \<open>train\_tree.py: claims\<close>






end
